theory Spec2Isabelle
  imports Complex_Main
begin

section \<open>JavaScript values used by the MedAtlas front end\<close>

text \<open>
  JSON numbers are modelled as finite reals (\<open>NaN\<close> and the infinities are outside the
  model), counts as integers, strings as \<open>string\<close>, and a property that may be
  \<open>undefined\<close> or \<open>null\<close> as an \<open>option\<close> with \<open>None\<close> for both.
\<close>

text \<open>\<open>a || b\<close> on strings: \<open>a\<close> unless it is falsy (\<open>undefined\<close>, \<open>null\<close> or the empty string).\<close>

definition or_str :: "string option \<Rightarrow> string option \<Rightarrow> string option" where
  "or_str a b = (case a of None \<Rightarrow> b | Some s \<Rightarrow> if s = [] then b else Some s)"

text \<open>\<open>a || d\<close> with a string literal \<open>d\<close> as the last operand.\<close>

definition or_default :: "string option \<Rightarrow> string \<Rightarrow> string" where
  "or_default a d = (case a of None \<Rightarrow> d | Some s \<Rightarrow> if s = [] then d else s)"

text \<open>\<open>a ?? d\<close>: \<open>a\<close> unless it is \<open>undefined\<close> or \<open>null\<close>.\<close>

definition nullish :: "'a option \<Rightarrow> 'a \<Rightarrow> 'a" where
  "nullish a d = (case a of None \<Rightarrow> d | Some v \<Rightarrow> v)"

text \<open>\<open>n || m\<close> on numbers: \<open>n\<close> unless it is falsy, that is \<open>0\<close>.\<close>

definition or_num :: "real \<Rightarrow> real \<Rightarrow> real" where
  "or_num n m = (if n = 0 then m else n)"

text \<open>
  \<open>x.toFixed(0)\<close>: the integer nearest to \<open>x\<close>, the larger one on a tie, with the sign
  taken out first for a negative \<open>x\<close>. \<open>x.toFixed(1)\<close> is the same on tenths; its result
  is kept as the number of tenths.
\<close>

definition toFixed0 :: "real \<Rightarrow> int" where
  "toFixed0 x = (if x < 0 then - \<lfloor>- x + 1 / 2\<rfloor> else \<lfloor>x + 1 / 2\<rfloor>)"

definition toFixed1 :: "real \<Rightarrow> int" where
  "toFixed1 x = toFixed0 (x * 10)"

text \<open>\<open>s.toLowerCase()\<close> on ASCII strings and \<open>s.replace(a, b)\<close> with one-character
  string arguments, which replaces the first occurrence only.\<close>

definition toLowerCase_char :: "char \<Rightarrow> char" where
  "toLowerCase_char c =
     (case map_of (zip ''ABCDEFGHIJKLMNOPQRSTUVWXYZ'' ''abcdefghijklmnopqrstuvwxyz'') c of
        Some l \<Rightarrow> l
      | None \<Rightarrow> c)"

definition toLowerCase :: "string \<Rightarrow> string" where
  "toLowerCase s = map toLowerCase_char s"

fun replace_first :: "char \<Rightarrow> char \<Rightarrow> string \<Rightarrow> string" where
  "replace_first a b [] = []"
| "replace_first a b (c # cs) = (if c = a then b # cs else c # replace_first a b cs)"

text \<open>A rejected API call: \<open>err?.response?.data?.detail\<close> and \<open>err?.message\<close>.\<close>

record api_error =
  detail :: "string option"
  message :: "string option"

definition error_text :: "api_error \<Rightarrow> string \<Rightarrow> string" where
  "error_text err fallback = or_default (or_str (detail err) (message err)) fallback"

text \<open>
  \<open>obj[key]\<close> on an object literal finds the literal's own properties first and then those
  it inherits from \<open>Object.prototype\<close>; the inherited values are functions (for
  \<open>__proto__\<close> the prototype object itself), all of them truthy and without properties of
  the application's. Any other key yields \<open>undefined\<close>.
\<close>

definition Object_prototype_keys :: "string list" where
  "Object_prototype_keys =
     [''constructor'', ''hasOwnProperty'', ''isPrototypeOf'', ''propertyIsEnumerable'',
      ''toLocaleString'', ''toString'', ''valueOf'', ''__proto__'',
      ''__defineGetter__'', ''__defineSetter__'', ''__lookupGetter__'', ''__lookupSetter__'']"

datatype 'a js_property = Own 'a | Inherited | Missing

definition get_property :: "(string \<times> 'a) list \<Rightarrow> string \<Rightarrow> 'a js_property" where
  "get_property obj k =
     (case map_of obj k of
        Some v \<Rightarrow> Own v
      | None \<Rightarrow> if k \<in> set Object_prototype_keys then Inherited else Missing)"


section \<open>components/ProviderTable.jsx and components/DiscrepancyList.jsx\<close>

text \<open>A provider object as the API returns it; only the properties the table reads.\<close>

record api_provider =
  ap_id :: int
  ap_confidence_score :: "real option"
  ap_validation_status :: "string option"
  ap_status :: "string option"

text \<open>An entry of the object literal \<open>badges\<close>: its properties \<open>class\<close> and \<open>text\<close>.\<close>

record badge_entry =
  entry_class :: string
  entry_text :: string

text \<open>The object literal \<open>badges\<close> of \<open>getStatusBadge\<close>, in source order.\<close>

definition status_badges :: "(string \<times> badge_entry) list" where
  "status_badges =
     [(''validated'', \<lparr>entry_class = ''badge-success'', entry_text = ''Validated''\<rparr>),
      (''pending'', \<lparr>entry_class = ''badge-warning'', entry_text = ''Pending''\<rparr>),
      (''needs_review'', \<lparr>entry_class = ''badge-info'', entry_text = ''Needs Review''\<rparr>),
      (''review_recommended'',
         \<lparr>entry_class = ''badge-warning'', entry_text = ''Review Recommended''\<rparr>),
      (''high_risk'', \<lparr>entry_class = ''badge-danger'', entry_text = ''High Risk''\<rparr>)]"

text \<open>The \<open>span\<close> a badge is rendered as: its \<open>className\<close> and its text.\<close>

record badge =
  badge_class :: string
  badge_text :: string

text \<open>
  \<open>getStatusBadge\<close>: \<open>badges[status] || badges.pending\<close>, rendered with the class
  \<open>`badge ${badge.class}`\<close> and the text \<open>badge.text\<close>. An inherited property is truthy,
  so it is not replaced by the pending entry; its \<open>class\<close> and \<open>text\<close> are
  \<open>undefined\<close>, which the template prints as the word and the element renders as no text.
\<close>

definition getStatusBadge :: "string \<Rightarrow> badge" where
  "getStatusBadge status =
     (let found = (case get_property status_badges status of
                     Missing \<Rightarrow> get_property status_badges ''pending''
                   | p \<Rightarrow> p)
      in case found of
           Own b \<Rightarrow> \<lparr>badge_class = ''badge '' @ entry_class b, badge_text = entry_text b\<rparr>
         | _ \<Rightarrow> \<lparr>badge_class = ''badge undefined'', badge_text = []\<rparr>)"

definition getConfidenceColor :: "real \<Rightarrow> string" where
  "getConfidenceColor score =
     (if score \<ge> 80 then ''#27ae60''
      else if score \<ge> 60 then ''#f39c12''
      else ''#e74c3c'')"

text \<open>The function of the same name in \<open>DiscrepancyList\<close>.\<close>

definition getConfidenceColor_DiscrepancyList :: "real \<Rightarrow> string" where
  "getConfidenceColor_DiscrepancyList confidence =
     (if confidence \<ge> 80 then ''#27ae60''
      else if confidence \<ge> 60 then ''#f39c12''
      else ''#e74c3c'')"

text \<open>The status a table row passes to \<open>getStatusBadge\<close>:
  \<open>provider.validation_status || provider.status || 'pending'\<close>.\<close>

definition row_status :: "api_provider \<Rightarrow> string" where
  "row_status provider =
     or_default (or_str (ap_validation_status provider) (ap_status provider)) ''pending''"

text \<open>The score a table row shows and colours: \<open>provider.confidence_score || 0\<close>.\<close>

definition row_score :: "api_provider \<Rightarrow> real" where
  "row_score provider = or_num (nullish (ap_confidence_score provider) 0) 0"

text \<open>
  A discrepancy object as the API returns it to \<open>DiscrepancyList\<close>, and the actions a
  card offers: the button \<open>Mark as Resolved\<close> is rendered only under
  \<open>discrepancy.status === 'open'\<close> and calls \<open>onResolve(discrepancy.id)\<close>.
\<close>

record api_discrepancy =
  ad_id :: int
  ad_status :: "string option"

text \<open>A call \<open>discrepancyAPI.updateDiscrepancy(id, status, notes)\<close>.\<close>

record update_request =
  req_id :: int
  req_status :: string
  req_notes :: string

text \<open>\<open>handleResolve\<close> of \<open>DiscrepanciesPage.jsx\<close>: the request it sends.\<close>

definition handleResolve :: "int \<Rightarrow> update_request" where
  "handleResolve discrepancyId =
     \<lparr>req_id = discrepancyId, req_status = ''resolved'', req_notes = ''Resolved manually''\<rparr>"

text \<open>The requests a card of \<open>DiscrepancyList\<close> can trigger, with \<open>onResolve = handleResolve\<close>.\<close>

definition DiscrepancyList_actions :: "api_discrepancy \<Rightarrow> update_request list" where
  "DiscrepancyList_actions discrepancy =
     (if ad_status discrepancy = Some ''open'' then [handleResolve (ad_id discrepancy)] else [])"


section \<open>pages/ProvidersPage.jsx\<close>

text \<open>The \<open>option\<close> values of the status filter \<open>select\<close>, in source order.\<close>

definition status_filter_options :: "string list" where
  "status_filter_options =
     [''all'', ''pending'', ''validated'', ''needs_review'', ''review_recommended'']"

definition getFilteredProviders :: "string \<Rightarrow> api_provider list \<Rightarrow> api_provider list" where
  "getFilteredProviders statusFilter providers =
     (if statusFilter = ''all'' then providers
      else filter (\<lambda>p. ap_status p = Some statusFilter) providers)"


section \<open>pages/Providers.tsx\<close>

text \<open>The members of the union type \<open>ProviderStatus\<close>. A value reaches the type through
  an unchecked cast, so a status is a string at run time.\<close>

definition ProviderStatus_members :: "string list" where
  "ProviderStatus_members = [''validated'', ''pending'', ''failed'']"

record Provider =
  p_id :: string
  name :: string
  npi :: string
  specialty :: string
  status :: string
  confidence :: real
  lastValidated :: string

definition StatusBadge_styles :: "(string \<times> string) list" where
  "StatusBadge_styles =
     [(''validated'', ''bg-green-600/10 text-green-400 border-green-600/20''),
      (''pending'', ''bg-amber-600/10 text-amber-400 border-amber-600/20''),
      (''failed'', ''bg-red-600/10 text-red-400 border-red-600/20'')]"

definition StatusBadge_labels :: "(string \<times> string) list" where
  "StatusBadge_labels =
     [(''validated'', ''Validated''), (''pending'', ''Pending''), (''failed'', ''Failed'')]"

text \<open>\<open>StatusBadge\<close>: what \<open>styles[status]\<close> and \<open>labels[status]\<close> yield for a status: a
  string of the literal, an inherited value, or \<open>undefined\<close> (then the class ends in the
  word \<open>undefined\<close> and the badge has no text).\<close>

definition StatusBadge :: "string \<Rightarrow> string js_property \<times> string js_property" where
  "StatusBadge st = (get_property StatusBadge_styles st, get_property StatusBadge_labels st)"

text \<open>The status \<open>loadProviders\<close> gives a provider of the API:
  \<open>(p.validation_status ?? 'pending') as ProviderStatus\<close>, an unchecked cast.\<close>

definition loadProviders_status :: "api_provider \<Rightarrow> string" where
  "loadProviders_status p = nullish (ap_validation_status p) ''pending''"

text \<open>\<open>ConfidenceBar\<close>: the colour class, the width of the bar in percent and the number
  printed before the percent sign.\<close>

record ConfidenceBar_view =
  bar_color :: string
  bar_width :: real
  bar_label :: int

definition ConfidenceBar :: "real \<Rightarrow> ConfidenceBar_view" where
  "ConfidenceBar c =
     (let color = (if c \<ge> 90 then ''bg-green-500''
                   else if c \<ge> 75 then ''bg-amber-500''
                   else ''bg-red-500'');
          safeWidth = max 0 (min 100 c)
      in \<lparr>bar_color = color, bar_width = safeWidth, bar_label = toFixed0 safeWidth\<rparr>)"

text \<open>The object \<open>result?.final_results ?? {}\<close> of a validation response; its
  \<open>confidence_score\<close> is a JSON number or missing (a score sent as a string, which the
  handler would pass through \<open>Number\<close>, is outside the model).\<close>

record final_results =
  validation_status :: "string option"
  confidence_score :: "real option"

definition no_final_results :: final_results where
  "no_final_results = \<lparr>validation_status = None, confidence_score = None\<rparr>"

record Providers_state =
  providers :: "Provider list"
  validatingId :: "string option"
  error :: "string option"

text \<open>The callback given to \<open>setProviders\<close>, applied to one element of the list.\<close>

definition update_provider :: "string \<Rightarrow> string \<Rightarrow> real \<Rightarrow> string \<Rightarrow> Provider \<Rightarrow> Provider" where
  "update_provider i newStatus newConfidence today p =
     (if p_id p = i
      then p\<lparr>status := newStatus,
              confidence := or_num newConfidence (confidence p),
              lastValidated := today\<rparr>
      else p)"

text \<open>
  \<open>handleValidate\<close>, from the click to the end of the \<open>finally\<close> block. The outcome of
  \<open>providerAPI.validateProvider\<close> is \<open>Inl\<close> a rejection or \<open>Inr\<close> the response's
  \<open>final_results\<close> (if any); \<open>today\<close> is \<open>new Date().toISOString().slice(0, 10)\<close>.
\<close>

definition handleValidate ::
  "string \<Rightarrow> api_error + final_results option \<Rightarrow> string \<Rightarrow> Providers_state \<Rightarrow> Providers_state" where
  "handleValidate i outcome today st =
     (case outcome of
        Inl err \<Rightarrow>
          st\<lparr>validatingId := None, error := Some (error_text err ''Failed to validate provider'')\<rparr>
      | Inr result \<Rightarrow>
          (let final = nullish result no_final_results;
               newStatus = nullish (validation_status final) ''validated'';
               newConfidence = nullish (confidence_score final) 0
           in st\<lparr>providers := map (update_provider i newStatus newConfidence today) (providers st),
                  validatingId := None,
                  error := None\<rparr>))"


section \<open>pages/Discrepancies.tsx\<close>

text \<open>The members of the union type \<open>Status\<close>; again a string at run time.\<close>

definition Status_members :: "string list" where
  "Status_members = [''open'', ''under_review'', ''resolved'']"

record Discrepancy =
  d_id :: string
  providerId :: string
  providerName :: string
  d_type :: string
  severity :: string
  description :: string
  detectedDate :: string
  d_status :: string

definition Discrepancy_StatusBadge_labels :: "(string \<times> string) list" where
  "Discrepancy_StatusBadge_labels =
     [(''open'', ''Open''), (''under_review'', ''Under Review''), (''resolved'', ''Resolved'')]"

text \<open>\<open>rawStatus.toLowerCase().replace(' ', '_')\<close>.\<close>

definition normalizedStatus :: "string \<Rightarrow> string" where
  "normalizedStatus rawStatus = replace_first (CHR '' '') (CHR ''_'') (toLowerCase rawStatus)"

definition nextStatus :: "string \<Rightarrow> string" where
  "nextStatus st =
     (if st = ''open'' then ''under_review''
      else if st = ''under_review'' then ''resolved''
      else ''resolved'')"

definition review_notes :: "string \<Rightarrow> string" where
  "review_notes next =
     (if next = ''under_review'' then ''Marked as under review from UI''
      else if next = ''resolved'' then ''Marked as resolved from UI''
      else '''')"

text \<open>The request \<open>handleReview\<close> sends for a discrepancy: the next status and the notes.\<close>

definition handleReview_request :: "Discrepancy \<Rightarrow> string \<times> string" where
  "handleReview_request disc = (nextStatus (d_status disc), review_notes (nextStatus (d_status disc)))"

record Discrepancies_state =
  discrepancies :: "Discrepancy list"
  updatingId :: "string option"
  d_error :: "string option"

text \<open>
  The Review button of a row: \<open>onClick={() => handleReview(discrepancy)}\<close> with
  \<open>disabled={updatingId === discrepancy.id}\<close>. The requests a click on the row's button can
  send: none while the row is being updated, else the one of \<open>handleReview\<close>.
\<close>

definition Review_button :: "Discrepancies_state \<Rightarrow> Discrepancy \<Rightarrow> (string \<times> string) list" where
  "Review_button st discrepancy =
     (if updatingId st = Some (d_id discrepancy) then [] else [handleReview_request discrepancy])"

text \<open>
  \<open>handleReview\<close>, from the click to the end of the \<open>finally\<close> block. The outcome of
  \<open>discrepancyAPI.updateDiscrepancy\<close> is \<open>Inl\<close> a rejection or \<open>Inr\<close> the \<open>status\<close>
  property of the updated object (if any).
\<close>

definition handleReview ::
  "Discrepancy \<Rightarrow> api_error + string option \<Rightarrow> Discrepancies_state \<Rightarrow> Discrepancies_state" where
  "handleReview disc outcome st =
     (case outcome of
        Inl err \<Rightarrow>
          st\<lparr>updatingId := None, d_error := Some (error_text err ''Failed to update discrepancy'')\<rparr>
      | Inr updated_status \<Rightarrow>
          (let rawStatus = nullish updated_status (nextStatus (d_status disc))
           in st\<lparr>discrepancies :=
                    map (\<lambda>d. if d_id d = d_id disc then d\<lparr>d_status := normalizedStatus rawStatus\<rparr> else d)
                      (discrepancies st),
                  updatingId := None,
                  d_error := None\<rparr>))"


section \<open>components/SummaryCards.jsx and pages/Dashboard.tsx\<close>

text \<open>
  The summary object of \<open>getSummary\<close>, a JSON object: each property is a number or missing
  (\<open>None\<close>, also for \<open>null\<close>). The interface \<open>SummaryStats\<close> of \<open>Dashboard.tsx\<close> declares
  the seven properties below.
\<close>

type_synonym summary = "string \<Rightarrow> real option"


text \<open>What a card prints: a number as it is, nothing for \<open>undefined\<close>, or a number of
  tenths followed by a percent sign (the result of \<open>toFixed(1)\<close>).\<close>

datatype card_value = Plain real | Nothing | Percent_tenths int


record card =
  card_title :: string
  card_value :: card_value
  card_color :: string



text \<open>The five \<open>StatCard\<close>s at the top of \<open>Dashboard.tsx\<close>, where a missing summary or
  property counts as zero (\<open>summary?.total_providers ?? 0\<close> and so on).\<close>

definition Dashboard_StatCards :: "summary option \<Rightarrow> (string \<times> card_value) list" where
  "Dashboard_StatCards summary =
     (let get = (\<lambda>k. case summary of None \<Rightarrow> 0 | Some s \<Rightarrow> nullish (s k) 0);
          total = get ''total_providers'';
          validated = get ''validated_providers'';
          pending = get ''pending_providers'';
          openDisc = get ''open_discrepancies'';
          avgConf = get ''avg_confidence_score''
      in [(''Total Providers'', Plain total),
          (''Validated'', Plain validated),
          (''Pending'', Plain pending),
          (''Open Discrepancies'', Plain openDisc),
          (''Avg Confidence'', Percent_tenths (toFixed1 avgConf))])"


section \<open>The validation engine\<close>

text \<open>
  The reconciliation and scoring engine (normaliser, collector, detector, scorer,
  reconciler, runner) is the Python back end behind the API the pages above call; it is not
  among the front-end sources, so this section follows the design document, sections 3
  to 4.6. Every definition of this section is such a model.
\<close>

text \<open>Modelled from the spec: the three sources of a candidate value (section 3), in the
  order of trust of section 4.5; the back end that declares them is absent.\<close>

datatype source = Registry | Enrichment | Import

text \<open>Modelled from the spec: the risk levels of section 3 (the back end's models are
  absent).\<close>

datatype risk = Low | Medium | High

text \<open>Modelled from the spec: the discrepancy statuses of section 3 (the back end's models
  are absent).\<close>

datatype discrepancy_status = Open | Resolved

text \<open>Modelled from the spec: the validation statuses of a ProviderRecord, section 3 (the
  back end's models are absent).\<close>

datatype provider_status = Pending | Validated | Needs_review | Review_recommended | High_risk

text \<open>Modelled from the spec: the ValidationRunError of section 7, fatal for one provider
  (the runner is absent).\<close>

datatype run_error = ValidationRunError

text \<open>Modelled from the spec: FieldCandidate of section 3, for the absent back end. A raw
  value \<open>None\<close> is an absent source, \<open>Some []\<close> an empty one, and a normalised value
  \<open>None\<close> an unparseable one.\<close>

record FieldCandidate =
  fc_source :: source
  raw_value :: "string option"
  normalized_value :: "string option"

text \<open>Modelled from the spec: FieldOutcome of section 4.3 (the detector is absent), with the
  final value the reconciler selects.\<close>

record FieldOutcome =
  fo_confidence :: nat
  fo_risk :: risk
  fo_discrepancy :: bool
  fo_final :: "string option"

text \<open>Modelled from the spec: a row of the Discrepancy table of section 3 (the back end's
  table is absent).\<close>

record discrepancy_row =
  dr_id :: nat
  dr_provider_id :: nat
  dr_field_name :: string
  dr_import_value :: "string option"
  dr_registry_value :: "string option"
  dr_enrichment_value :: "string option"
  dr_final_value :: "string option"
  dr_confidence :: nat
  dr_risk_level :: risk
  dr_status :: discrepancy_status
  dr_notes :: string
  dr_created_at :: nat
  dr_resolved_at :: "nat option"

text \<open>Modelled from the spec: ProviderRecord of section 3 (the back end's table is absent),
  reduced to what a validation run writes.\<close>

record ProviderRecord =
  pr_id :: nat
  pr_final_values :: "(string \<times> string option) list"
  pr_confidence_score :: nat
  pr_validation_status :: provider_status
  pr_last_validated_at :: "nat option"

text \<open>Modelled from the spec: the configuration and the external collaborators the absent
  engine is given: the registered fields, the normaliser of section 4.1 as a pure function of
  field type and raw string, the weight table of section 4.4, and the three sources of
  section 6 as a lookup by provider, field and source.\<close>

record engine_config =
  registered_fields :: "string list"
  normalize_value :: "string \<Rightarrow> string \<Rightarrow> string option"
  field_weight :: "string \<Rightarrow> nat"
  external_sources :: "nat \<Rightarrow> string \<Rightarrow> source \<Rightarrow> string option"

text \<open>Modelled from the spec: the two shared tables of section 5 (the back end's store is
  absent).\<close>

record engine_state =
  provider_table :: "ProviderRecord list"
  discrepancy_table :: "discrepancy_row list"

text \<open>Modelled from the spec: the trust weights of section 4.3 (the detector is absent).\<close>

definition trust_weight :: "source \<Rightarrow> nat" where
  "trust_weight s = (case s of Registry \<Rightarrow> 90 | Enrichment \<Rightarrow> 75 | Import \<Rightarrow> 60)"

text \<open>Modelled from the spec: the risk thresholds of section 4.3 (the detector is absent):
  high below 60, medium from 60 to 79, low from 80.\<close>

definition risk_of :: "nat \<Rightarrow> risk" where
  "risk_of c = (if c < 60 then High else if c < 80 then Medium else Low)"

text \<open>Modelled from the spec: \<open>collect\<close> of section 4.2 (the collector is absent): one
  candidate per source for a field, normalised by the configured normaliser.\<close>

definition collect :: "engine_config \<Rightarrow> nat \<Rightarrow> string \<Rightarrow> FieldCandidate list" where
  "collect cfg pid f =
     map (\<lambda>s. \<lparr>fc_source = s,
                raw_value = external_sources cfg pid f s,
                normalized_value =
                  (case external_sources cfg pid f s of
                     None \<Rightarrow> None
                   | Some raw \<Rightarrow> normalize_value cfg f raw)\<rparr>)
       [Registry, Enrichment, Import]"

text \<open>Modelled from the spec: the present candidates of section 4.3, those of a source
  that is not absent (the detector is absent).\<close>

definition present :: "FieldCandidate list \<Rightarrow> FieldCandidate list" where
  "present cs = filter (\<lambda>c. raw_value c \<noteq> None) cs"

text \<open>Modelled from the spec: the valid candidates of section 4.3, present and parseable
  (the detector is absent).\<close>

definition valid :: "FieldCandidate list \<Rightarrow> FieldCandidate list" where
  "valid cs = filter (\<lambda>c. normalized_value c \<noteq> None) (present cs)"

text \<open>Modelled from the spec: the selection rule of section 4.5 (the reconciler is absent):
  the valid candidate of the most trusted source, registry before enrichment before
  import.\<close>

definition select_final :: "FieldCandidate list \<Rightarrow> FieldCandidate option" where
  "select_final cs =
     (case concat (map (\<lambda>s. filter (\<lambda>c. fc_source c = s) (valid cs))
                    [Registry, Enrichment, Import]) of
        [] \<Rightarrow> None
      | c # _ \<Rightarrow> Some c)"

text \<open>Modelled from the spec: whether two compared values differ, section 4.3 (the detector
  is absent); unparseable candidates are excluded from the comparison.\<close>

definition values_differ :: "FieldCandidate list \<Rightarrow> bool" where
  "values_differ cs =
     list_ex (\<lambda>a. list_ex (\<lambda>b. normalized_value a \<noteq> normalized_value b) (valid cs)) (valid cs)"

text \<open>Modelled from the spec: \<open>detect\<close> of section 4.3 (the detector is absent), its four
  cases in the order of the policy. The agreement ratio is rounded down to an integer.\<close>

definition detect :: "string \<Rightarrow> FieldCandidate list \<Rightarrow> FieldOutcome" where
  "detect f cs =
     (let p = present cs;
          final = select_final cs;
          final_raw = (case final of None \<Rightarrow> None | Some c \<Rightarrow> raw_value c)
      in if p = [] then
           \<lparr>fo_confidence = 0, fo_risk = High, fo_discrepancy = False, fo_final = None\<rparr>
         else if length p = 1 then
           \<lparr>fo_confidence = trust_weight (fc_source (hd p)),
            fo_risk = risk_of (trust_weight (fc_source (hd p))),
            fo_discrepancy = False, fo_final = final_raw\<rparr>
         else if \<not> values_differ cs then
           \<lparr>fo_confidence = 100, fo_risk = risk_of 100, fo_discrepancy = False,
            fo_final = final_raw\<rparr>
         else
           (let agreeing = length (filter (\<lambda>c. Some (normalized_value c) =
                                                 map_option normalized_value final) (valid cs));
                conf = agreeing * 100 div length p
            in \<lparr>fo_confidence = conf, fo_risk = risk_of conf, fo_discrepancy = True,
                fo_final = final_raw\<rparr>))"

text \<open>Modelled from the spec: the raw value a source contributed, stored in a discrepancy
  row (section 8, no silent mutation); the reconciler is absent.\<close>

definition raw_of :: "source \<Rightarrow> FieldCandidate list \<Rightarrow> string option" where
  "raw_of s cs = (case filter (\<lambda>c. fc_source c = s) cs of [] \<Rightarrow> None | c # _ \<Rightarrow> raw_value c)"

text \<open>Modelled from the spec: the open row of a provider and field, of which section 3
  allows one at most; the reconciler is absent.\<close>

definition is_open_for :: "nat \<Rightarrow> string \<Rightarrow> discrepancy_row \<Rightarrow> bool" where
  "is_open_for pid f r = (dr_provider_id r = pid \<and> dr_field_name r = f \<and> dr_status r = Open)"

text \<open>Modelled from the spec: the update in place of section 4.5 (the reconciler is
  absent): same id, status, notes and creation time, new values.\<close>

definition write_row :: "FieldOutcome \<Rightarrow> FieldCandidate list \<Rightarrow> discrepancy_row \<Rightarrow> discrepancy_row" where
  "write_row out cs r =
     r\<lparr>dr_import_value := raw_of Import cs,
       dr_registry_value := raw_of Registry cs,
       dr_enrichment_value := raw_of Enrichment cs,
       dr_final_value := fo_final out,
       dr_confidence := fo_confidence out,
       dr_risk_level := fo_risk out\<rparr>"

text \<open>Modelled from the spec: the automatic close of section 4.5 (the reconciler is absent).\<close>

definition close_row :: "nat \<Rightarrow> discrepancy_row \<Rightarrow> discrepancy_row" where
  "close_row now r = r\<lparr>dr_status := Resolved, dr_resolved_at := Some now\<rparr>"

text \<open>Modelled from the spec: the id of an inserted row, one above the largest id of the
  table; the reconciler is absent.\<close>

definition fresh_id :: "discrepancy_row list \<Rightarrow> nat" where
  "fresh_id tbl = Suc (fold max (map dr_id tbl) 0)"

text \<open>Modelled from the spec: the row section 4.5 creates for a new disagreement, open and
  without notes (the reconciler is absent).\<close>

definition new_row ::
  "nat \<Rightarrow> nat \<Rightarrow> string \<Rightarrow> nat \<Rightarrow> FieldOutcome \<Rightarrow> FieldCandidate list \<Rightarrow> discrepancy_row" where
  "new_row i pid f now out cs =
     write_row out cs
       \<lparr>dr_id = i, dr_provider_id = pid, dr_field_name = f,
        dr_import_value = None, dr_registry_value = None, dr_enrichment_value = None,
        dr_final_value = None, dr_confidence = 0, dr_risk_level = High,
        dr_status = Open, dr_notes = [], dr_created_at = now, dr_resolved_at = None\<rparr>"

text \<open>Modelled from the spec: the idempotent write of section 4.5 (the reconciler is
  absent). A disagreement updates the open row of the field in place or, without one,
  inserts a row; an agreement closes the open row.\<close>

definition upsert ::
  "nat \<Rightarrow> string \<Rightarrow> FieldOutcome \<Rightarrow> FieldCandidate list \<Rightarrow> nat \<Rightarrow>
   discrepancy_row list \<Rightarrow> discrepancy_row list" where
  "upsert pid f out cs now tbl =
     (if fo_discrepancy out then
        if list_ex (is_open_for pid f) tbl
        then map (\<lambda>r. if is_open_for pid f r then write_row out cs r else r) tbl
        else tbl @ [new_row (fresh_id tbl) pid f now out cs]
      else map (\<lambda>r. if is_open_for pid f r then close_row now r else r) tbl)"

text \<open>Modelled from the spec: one field through the pipeline of section 2, collector to
  reconciler, without a manual override; the pipeline is absent.\<close>

definition reconcile_field ::
  "engine_config \<Rightarrow> nat \<Rightarrow> nat \<Rightarrow> string \<Rightarrow> discrepancy_row list \<Rightarrow> discrepancy_row list" where
  "reconcile_field cfg pid now f tbl =
     upsert pid f (detect f (collect cfg pid f)) (collect cfg pid f) now tbl"

text \<open>Modelled from the spec: \<open>score\<close> of section 4.4 (the scorer is absent): the weighted
  mean of the field confidences, rounded down.\<close>

definition score :: "engine_config \<Rightarrow> (string \<times> FieldOutcome) list \<Rightarrow> nat" where
  "score cfg outs =
     (let total = sum_list (map (\<lambda>(f, out). field_weight cfg f) outs)
      in if total = 0 then 0
         else sum_list (map (\<lambda>(f, out). field_weight cfg f * fo_confidence out) outs) div total)"

text \<open>Modelled from the spec: the threshold table of section 4.4 (the scorer is absent).\<close>

definition status_of :: "nat \<Rightarrow> (string \<times> FieldOutcome) list \<Rightarrow> provider_status" where
  "status_of sc outs =
     (if sc \<ge> 80 then Validated
      else if sc \<ge> 60 then
        (if list_ex (\<lambda>(f, out). fo_risk out = High) outs then Review_recommended else Needs_review)
      else High_risk)"

text \<open>Modelled from the spec: the outcomes of all registered fields of a provider, section
  4.3 applied per field (the pipeline is absent).\<close>

definition field_outcomes :: "engine_config \<Rightarrow> nat \<Rightarrow> (string \<times> FieldOutcome) list" where
  "field_outcomes cfg pid = map (\<lambda>f. (f, detect f (collect cfg pid f))) (registered_fields cfg)"

text \<open>Modelled from the spec: the FinalizedProvider of section 4.5, written to the record
  of the validated provider only (the reconciler is absent).\<close>

definition finalize :: "engine_config \<Rightarrow> nat \<Rightarrow> nat \<Rightarrow> ProviderRecord \<Rightarrow> ProviderRecord" where
  "finalize cfg pid now q =
     (if pr_id q = pid
      then q\<lparr>pr_final_values := map (\<lambda>(f, out). (f, fo_final out)) (field_outcomes cfg pid),
              pr_confidence_score := score cfg (field_outcomes cfg pid),
              pr_validation_status :=
                status_of (score cfg (field_outcomes cfg pid)) (field_outcomes cfg pid),
              pr_last_validated_at := Some now\<rparr>
      else q)"

text \<open>Modelled from the spec: \<open>validateOne\<close> of section 4.6 (the runner is absent). A
  provider without a stored record is the unrecoverable error of section 7, which leaves the
  state as it was; without \<open>forceRevalidate\<close> a provider that was validated before keeps
  its stored result; otherwise every field is recomputed from the sources at time \<open>now\<close>.\<close>

definition validateOne ::
  "engine_config \<Rightarrow> nat \<Rightarrow> bool \<Rightarrow> nat \<Rightarrow> engine_state \<Rightarrow> run_error + engine_state" where
  "validateOne cfg pid forceRevalidate now st =
     (case filter (\<lambda>p. pr_id p = pid) (provider_table st) of
        [] \<Rightarrow> Inl ValidationRunError
      | p # _ \<Rightarrow>
          if \<not> forceRevalidate \<and> pr_validation_status p \<noteq> Pending then Inr st
          else Inr \<lparr>provider_table = map (finalize cfg pid now) (provider_table st),
                    discrepancy_table =
                      fold (reconcile_field cfg pid now) (registered_fields cfg)
                        (discrepancy_table st)\<rparr>)"

text \<open>A table is settled for a field when reconciling that field again changes nothing:
  under a disagreement an open row exists and every open row already holds the values,
  under an agreement no open row is left.\<close>

definition settled :: "engine_config \<Rightarrow> nat \<Rightarrow> string \<Rightarrow> discrepancy_row list \<Rightarrow> bool" where
  "settled cfg pid f tbl =
     (if fo_discrepancy (detect f (collect cfg pid f))
      then list_ex (is_open_for pid f) tbl \<and>
           list_all (\<lambda>r. is_open_for pid f r \<longrightarrow>
              write_row (detect f (collect cfg pid f)) (collect cfg pid f) r = r) tbl
      else \<not> list_ex (is_open_for pid f) tbl)"


section \<open>Sample data\<close>

definition alice :: Provider where
  "alice = \<lparr>p_id = ''1'', name = ''Alice Ng'', npi = ''1234567890'', specialty = ''Cardiology'',
     status = ''validated'', confidence = 85, lastValidated = ''2025-01-01''\<rparr>"

definition bob :: Provider where
  "bob = \<lparr>p_id = ''2'', name = ''Bob Roy'', npi = ''1098765432'', specialty = ''Oncology'',
     status = ''pending'', confidence = 40, lastValidated = ''2025-01-02''\<rparr>"

definition two_providers :: Providers_state where
  "two_providers = \<lparr>providers = [alice, bob], validatingId = Some ''1'', error = None\<rparr>"

text \<open>A provider as the API lists it, with \<open>validation_status\<close> and no \<open>status\<close> property.\<close>

definition carol :: api_provider where
  "carol = \<lparr>ap_id = 7, ap_confidence_score = Some 92, ap_validation_status = Some ''validated'',
     ap_status = None\<rparr>"

definition phone_mismatch :: Discrepancy where
  "phone_mismatch = \<lparr>d_id = ''12'', providerId = ''1'', providerName = ''Alice Ng'',
     d_type = ''phone'', severity = ''high'', description = ''phone differs'',
     detectedDate = ''2025-01-01'', d_status = ''open''\<rparr>"

definition address_mismatch :: Discrepancy where
  "address_mismatch = \<lparr>d_id = ''13'', providerId = ''2'', providerName = ''Bob Roy'',
     d_type = ''address'', severity = ''medium'', description = ''address differs'',
     detectedDate = ''2025-01-02'', d_status = ''resolved''\<rparr>"

definition two_discrepancies :: Discrepancies_state where
  "two_discrepancies =
     \<lparr>discrepancies = [phone_mismatch, address_mismatch], updatingId = None, d_error = None\<rparr>"

text \<open>A provider the API reports as high risk.\<close>

definition erin :: api_provider where
  "erin = \<lparr>ap_id = 9, ap_confidence_score = Some 45, ap_validation_status = Some ''high_risk'',
     ap_status = None\<rparr>"


text \<open>Scenario B of the design document: the import and the registry give different
  addresses for provider 7 and the enrichment gives none.\<close>

definition scenario_B_config :: engine_config where
  "scenario_B_config =
     \<lparr>registered_fields = [''address''],
      normalize_value = (\<lambda>f raw. if raw = [] then None else Some raw),
      field_weight = (\<lambda>f. 2),
      external_sources = (\<lambda>pid f s.
         if pid = 7 \<and> f = ''address''
         then (case s of Import \<Rightarrow> Some ''123 Main St''
                       | Registry \<Rightarrow> Some ''456 Oak Ave''
                       | Enrichment \<Rightarrow> None)
         else None)\<rparr>"

definition scenario_B_start :: engine_state where
  "scenario_B_start =
     \<lparr>provider_table =
        [\<lparr>pr_id = 7, pr_final_values = [], pr_confidence_score = 0,
          pr_validation_status = Pending, pr_last_validated_at = None\<rparr>],
      discrepancy_table = []\<rparr>"

definition scenario_B_after :: engine_state where
  "scenario_B_after =
     \<lparr>provider_table =
        [\<lparr>pr_id = 7, pr_final_values = [(''address'', Some ''456 Oak Ave'')],
          pr_confidence_score = 50, pr_validation_status = High_risk,
          pr_last_validated_at = Some 100\<rparr>],
      discrepancy_table =
        [\<lparr>dr_id = 1, dr_provider_id = 7, dr_field_name = ''address'',
          dr_import_value = Some ''123 Main St'', dr_registry_value = Some ''456 Oak Ave'',
          dr_enrichment_value = None, dr_final_value = Some ''456 Oak Ave'',
          dr_confidence = 50, dr_risk_level = High, dr_status = Open, dr_notes = [],
          dr_created_at = 100, dr_resolved_at = None\<rparr>]\<rparr>"


section \<open>Confidence colours and the confidence bar\<close>

lemma getConfidenceColor_bands:
  "(getConfidenceColor s = ''#27ae60'') = (80 \<le> s)"
  "(getConfidenceColor s = ''#f39c12'') = (60 \<le> s \<and> s < 80)"
  "(getConfidenceColor s = ''#e74c3c'') = (s < 60)"
  by (auto simp: getConfidenceColor_def)

lemma getConfidenceColor_DiscrepancyList_eq:
  "getConfidenceColor_DiscrepancyList s = getConfidenceColor s"
  by (simp add: getConfidenceColor_DiscrepancyList_def getConfidenceColor_def)

text \<open>
  C1. Every component that colour-codes a confidence score is to use the bands of the
  threshold table: from 80 validated, from 60 to below 80 review, below 60 high risk.
  \<open>getConfidenceColor\<close> does (the two lemmas above), \<open>ConfidenceBar\<close> does not: its bands
  start at 90 and 75, so a score of 85 is amber there and green in the table, and a score of
  70 is red there and amber in the table.
\<close>

theorem ConfidenceBar_color_off_table:
  "bar_color (ConfidenceBar 85) = ''bg-amber-500'' \<and> getConfidenceColor 85 = ''#27ae60'' \<and>
   bar_color (ConfidenceBar 70) = ''bg-red-500'' \<and> getConfidenceColor 70 = ''#f39c12''"
  by (simp add: ConfidenceBar_def getConfidenceColor_def Let_def)

lemma toFixed0_of_int: "toFixed0 (of_int k) = k"
  by (simp add: toFixed0_def)

text \<open>
  C8, as claimed: the width and the printed percentage of the bar both equal
  \<open>min(100, max(0, c))\<close>. The printed percentage is rounded by \<open>toFixed(0)\<close>: for
  \<open>c = 85.5\<close> the bar is 85.5 wide and prints 86.
\<close>

theorem ConfidenceBar_label_not_clamp:
  "real_of_int (bar_label (ConfidenceBar (171 / 2))) \<noteq> min 100 (max 0 (171 / 2))"
  by (simp add: ConfidenceBar_def toFixed0_def Let_def)

text \<open>
  C8, amended: for every number \<open>c\<close>, also below 0 and above 100, the width of the bar is
  \<open>min(100, max(0, c))\<close> and the printed percentage is that value rounded to the nearest
  integer (a half rounds up), which is the value itself for an integer \<open>c\<close>; both lie
  within 0 and 100.
\<close>

theorem ConfidenceBar_clamped:
  "bar_width (ConfidenceBar c) = min 100 (max 0 c) \<and>
   bar_label (ConfidenceBar c) = \<lfloor>min 100 (max 0 c) + 1 / 2\<rfloor> \<and>
   bar_label (ConfidenceBar (of_int k)) = min 100 (max 0 k) \<and>
   0 \<le> bar_width (ConfidenceBar c) \<and> bar_width (ConfidenceBar c) \<le> 100 \<and>
   0 \<le> bar_label (ConfidenceBar c) \<and> bar_label (ConfidenceBar c) \<le> 100"
proof -
  let ?w = "max 0 (min 100 c)"
  have w: "bar_width (ConfidenceBar c) = ?w" and l: "bar_label (ConfidenceBar c) = toFixed0 ?w"
    by (simp_all add: ConfidenceBar_def Let_def)
  have comm: "?w = min 100 (max 0 c)" by simp
  have r0: "0 \<le> ?w" by simp
  have r1: "?w \<le> 100" by simp
  have f: "toFixed0 ?w = \<lfloor>?w + 1 / 2\<rfloor>" using r0 by (simp add: toFixed0_def)
  have lo: "0 \<le> \<lfloor>?w + 1 / 2\<rfloor>" using r0 by linarith
  have hi: "\<lfloor>?w + 1 / 2\<rfloor> \<le> 100" using r1 by linarith
  have "max 0 (min 100 (real_of_int k)) = real_of_int (max 0 (min 100 k))" by simp
  then have "toFixed0 (max 0 (min 100 (real_of_int k))) = max 0 (min 100 k)"
    by (simp only: toFixed0_of_int)
  then have c3: "bar_label (ConfidenceBar (of_int k)) = min 100 (max 0 k)"
    by (simp add: ConfidenceBar_def Let_def)
  have c1: "bar_width (ConfidenceBar c) = min 100 (max 0 c)" using w comm by simp
  have c2: "bar_label (ConfidenceBar c) = \<lfloor>min 100 (max 0 c) + 1 / 2\<rfloor>"
    using l f comm by simp
  have c4: "0 \<le> bar_width (ConfidenceBar c)" using w r0 by simp
  have c5: "bar_width (ConfidenceBar c) \<le> 100" using w r1 by simp
  have c6: "0 \<le> bar_label (ConfidenceBar c)" using l f lo by simp
  have c7: "bar_label (ConfidenceBar c) \<le> 100" using l f hi by simp
  from c1 c2 c3 c4 c5 c6 c7 show ?thesis by blast
qed


section \<open>Validating one provider from the providers page\<close>

lemma update_provider_other: "p_id p \<noteq> i \<Longrightarrow> update_provider i s c t p = p"
  by (simp add: update_provider_def)

lemma providers_handleValidate_Inr:
  "providers (handleValidate i (Inr result) today st) =
     map (update_provider i (nullish (validation_status (nullish result no_final_results)) ''validated'')
            (nullish (confidence_score (nullish result no_final_results)) 0) today)
       (providers st)"
  by (simp add: handleValidate_def Let_def)

text \<open>A returned status and a returned confidence other than 0 are what the row shows.\<close>

lemma handleValidate_shows_nonzero:
  assumes "c \<noteq> 0"
  shows "list_all (\<lambda>p. p_id p = i \<longrightarrow> status p = s \<and> confidence p = c)
    (providers (handleValidate i
       (Inr (Some \<lparr>validation_status = Some s, confidence_score = Some c\<rparr>)) today st))"
proof -
  have "p_id (update_provider i s c today q) = i \<longrightarrow>
      status (update_provider i s c today q) = s \<and> confidence (update_provider i s c today q) = c" for q
    using assms by (simp add: update_provider_def or_num_def)
  then show ?thesis
    by (simp add: handleValidate_def Let_def nullish_def list_all_iff)
qed

text \<open>
  C3. After a validation run the row of the provider is to show the status and the
  confidence score of that run, whatever they are, a confidence of 0 included. With a
  returned confidence of 0 the callback \<open>newConfidence || p.confidence\<close> keeps the earlier
  confidence: Alice was at 85, the run returns \<open>high_risk\<close> with 0, and her row shows
  \<open>high_risk\<close> with 85.
\<close>

theorem handleValidate_keeps_old_confidence_on_zero:
  "providers (handleValidate ''1''
      (Inr (Some \<lparr>validation_status = Some ''high_risk'', confidence_score = Some 0\<rparr>))
      ''2025-06-01'' two_providers)
   = [alice\<lparr>status := ''high_risk'', confidence := 85, lastValidated := ''2025-06-01''\<rparr>, bob] \<and>
   bar_label (ConfidenceBar (confidence (hd (providers (handleValidate ''1''
      (Inr (Some \<lparr>validation_status = Some ''high_risk'', confidence_score = Some 0\<rparr>))
      ''2025-06-01'' two_providers))))) = 85"
  by (simp add: providers_handleValidate_Inr two_providers_def alice_def bob_def nullish_def
      update_provider_def or_num_def ConfidenceBar_def toFixed0_def Let_def)

text \<open>
  C9. When the validation of one provider succeeds, the list keeps its length and order and
  every entry whose id is not the validated one is unchanged in all its fields.
\<close>

theorem handleValidate_frame:
  "length (providers (handleValidate i (Inr result) today st)) = length (providers st) \<and>
   (\<forall>k < length (providers st). p_id (providers st ! k) \<noteq> i \<longrightarrow>
      providers (handleValidate i (Inr result) today st) ! k = providers st ! k)"
  by (simp add: providers_handleValidate_Inr update_provider_other)

theorem handleValidate_frame_witness:
  "p_id (providers two_providers ! 1) \<noteq> ''1'' \<and> (1::nat) < length (providers two_providers) \<and>
   providers (handleValidate ''1''
      (Inr (Some \<lparr>validation_status = Some ''high_risk'', confidence_score = Some 30\<rparr>))
      ''2025-06-01'' two_providers) ! 1 = bob"
proof -
  have a: "p_id (providers two_providers ! 1) \<noteq> ''1''"
    by (simp add: two_providers_def bob_def)
  have b: "(1::nat) < length (providers two_providers)"
    by (simp add: two_providers_def)
  have c: "providers two_providers ! 1 = bob"
    by (simp add: two_providers_def)
  from handleValidate_frame [of "''1''" _ "''2025-06-01''" two_providers] a b c
  show ?thesis by simp
qed


section \<open>The status filter of the providers page\<close>

text \<open>
  C10. Under a status filter \<open>s\<close> other than \<open>all\<close> the page is to show exactly the
  providers whose badge shows \<open>s\<close>. The filter compares \<open>p.status\<close>, the badge reads
  \<open>validation_status\<close> first: Carol, validated by her \<open>validation_status\<close>, has the
  Validated badge and is dropped by the filter \<open>validated\<close>.
\<close>

theorem getFilteredProviders_misses_validated:
  "getFilteredProviders ''validated'' [carol] = [] \<and>
   row_status carol = ''validated'' \<and>
   badge_text (getStatusBadge (row_status carol)) = ''Validated''"
  by (simp add: getFilteredProviders_def carol_def row_status_def or_default_def or_str_def
      getStatusBadge_def get_property_def status_badges_def Let_def)


section \<open>The domain of provider statuses\<close>

lemma dom_status_badges:
  "dom (map_of status_badges) =
     {''pending'', ''validated'', ''needs_review'', ''review_recommended'', ''high_risk''}"
  by (auto simp: status_badges_def dom_def split: if_splits)

lemma dom_StatusBadge_styles:
  "dom (map_of StatusBadge_styles) = {''validated'', ''pending'', ''failed''}"
  by (auto simp: StatusBadge_styles_def dom_def split: if_splits)

lemma dom_StatusBadge_labels:
  "dom (map_of StatusBadge_labels) = {''validated'', ''pending'', ''failed''}"
  by (auto simp: StatusBadge_labels_def dom_def split: if_splits)

text \<open>\<open>getStatusBadge\<close> renders each of the five statuses with the text of its own entry,
  and a value that is neither one of them nor an inherited key as the pending badge.\<close>

lemma getStatusBadge_own:
  "map_of status_badges s = Some b \<Longrightarrow>
   getStatusBadge s = \<lparr>badge_class = ''badge '' @ entry_class b, badge_text = entry_text b\<rparr>"
  by (simp add: getStatusBadge_def get_property_def Let_def)

lemma getStatusBadge_fallback:
  assumes "s \<notin> dom (map_of status_badges)" and "s \<notin> set Object_prototype_keys"
  shows "getStatusBadge s = \<lparr>badge_class = ''badge badge-warning'', badge_text = ''Pending''\<rparr>"
proof -
  from assms(1) have "map_of status_badges s = None" by (simp add: dom_def)
  with assms(2) have "get_property status_badges s = Missing"
    by (simp add: get_property_def)
  moreover have "get_property status_badges ''pending'' =
      Own \<lparr>entry_class = ''badge-warning'', entry_text = ''Pending''\<rparr>"
    by (simp add: get_property_def status_badges_def)
  ultimately show ?thesis by (simp add: getStatusBadge_def Let_def)
qed

text \<open>An inherited key is rendered with the class \<open>badge undefined\<close> and no text.\<close>

lemma getStatusBadge_constructor:
  "getStatusBadge ''constructor'' = \<lparr>badge_class = ''badge undefined'', badge_text = []\<rparr>"
  by (simp add: getStatusBadge_def get_property_def status_badges_def Object_prototype_keys_def
      Let_def)

text \<open>The badge of \<open>Providers.tsx\<close> has a style and a label of its own for exactly the
  three members of \<open>ProviderStatus\<close>.\<close>

lemma StatusBadge_own:
  "(\<exists>v. fst (StatusBadge s) = Own v) = (s \<in> set ProviderStatus_members)"
  "(\<exists>v. snd (StatusBadge s) = Own v) = (s \<in> set ProviderStatus_members)"
  by (auto simp: StatusBadge_def get_property_def StatusBadge_styles_def StatusBadge_labels_def
      ProviderStatus_members_def split: if_splits)

text \<open>The status filter of \<open>ProvidersPage.jsx\<close> offers four of the five values of
  \<open>getStatusBadge\<close>; \<open>high_risk\<close> cannot be selected.\<close>

lemma status_filter_options_lack_high_risk:
  "set status_filter_options - {''all''} =
     dom (map_of status_badges) - {''high_risk''}"
  by (auto simp: status_filter_options_def dom_status_badges)

text \<open>
  C6. Every provider status is one of pending, validated, needs_review, review_recommended
  and high_risk, and every handler of a provider status is to accept exactly these five.
  \<open>getStatusBadge\<close> of the provider table does. \<open>Providers.tsx\<close> and the filter of
  \<open>ProvidersPage.jsx\<close> do not: Erin, whom the API reports as \<open>high_risk\<close>, has the High Risk
  badge in the table, while \<open>Providers.tsx\<close> casts her status into a type without it and
  its badge finds neither style nor label (the same for \<open>needs_review\<close> and
  \<open>review_recommended\<close>), and the filter offers no option \<open>high_risk\<close>.
\<close>

theorem provider_status_high_risk_unhandled:
  "getStatusBadge (row_status erin) =
     \<lparr>badge_class = ''badge badge-danger'', badge_text = ''High Risk''\<rparr> \<and>
   loadProviders_status erin = ''high_risk'' \<and>
   ''high_risk'' \<notin> set ProviderStatus_members \<and>
   StatusBadge (loadProviders_status erin) = (Missing, Missing) \<and>
   StatusBadge ''needs_review'' = (Missing, Missing) \<and>
   StatusBadge ''review_recommended'' = (Missing, Missing) \<and>
   ''high_risk'' \<notin> set status_filter_options"
  by (simp add: erin_def row_status_def or_default_def or_str_def loadProviders_status_def
      nullish_def getStatusBadge_def get_property_def status_badges_def StatusBadge_def
      StatusBadge_styles_def StatusBadge_labels_def Object_prototype_keys_def
      ProviderStatus_members_def status_filter_options_def Let_def)


section \<open>Manual updates of a discrepancy\<close>

lemma nextStatus_member: "nextStatus s \<in> set Status_members"
  by (simp add: nextStatus_def Status_members_def)

lemma normalizedStatus_nextStatus: "normalizedStatus (nextStatus s) = nextStatus s"
  by (simp add: nextStatus_def normalizedStatus_def toLowerCase_def toLowerCase_char_def)

lemma list_all_map_step:
  "list_all P xs \<Longrightarrow> (\<And>x. P x \<Longrightarrow> P (h x)) \<Longrightarrow> list_all P (map h xs)"
  by (induction xs) auto

text \<open>When the API answers a review without a status or with the requested one, the rows
  with the id of the reviewed discrepancy take the requested status and no other row
  changes.\<close>

lemma handleReview_rows:
  assumes "answer = None \<or> answer = Some (nextStatus (d_status disc))"
  shows "discrepancies (handleReview disc (Inr answer) st) =
     map (\<lambda>d. if d_id d = d_id disc then d\<lparr>d_status := nextStatus (d_status disc)\<rparr> else d)
       (discrepancies st)"
proof -
  from assms have "normalizedStatus (nullish answer (nextStatus (d_status disc))) =
      nextStatus (d_status disc)"
    by (auto simp: nullish_def normalizedStatus_nextStatus)
  then show ?thesis by (simp add: handleReview_def Let_def)
qed

lemma handleReview_statuses:
  assumes "answer = None \<or> answer = Some (nextStatus (d_status disc))"
  shows "map d_status (discrepancies (handleReview disc (Inr answer) st)) =
     map (\<lambda>d. if d_id d = d_id disc then nextStatus (d_status disc) else d_status d)
       (discrepancies st)"
    and "map d_id (discrepancies (handleReview disc (Inr answer) st)) =
     map d_id (discrepancies st)"
  by (simp_all add: handleReview_rows [OF assms] o_def if_distrib [of d_status]
      if_distrib [of d_id] cong: if_cong)

text \<open>
  C4, as claimed: a manual update is offered only for an open discrepancy and sets it to
  resolved. In \<open>Discrepancies.tsx\<close> the review of the open discrepancy 12 asks for
  \<open>under_review\<close>, not for resolved, and the review that then asks for resolved starts
  from \<open>under_review\<close>, not from open.
\<close>

theorem handleReview_not_only_open_to_resolved:
  "d_status phone_mismatch = ''open'' \<and>
   Review_button two_discrepancies phone_mismatch =
     [(''under_review'', ''Marked as under review from UI'')] \<and>
   Review_button two_discrepancies (phone_mismatch\<lparr>d_status := ''under_review''\<rparr>) =
     [(''resolved'', ''Marked as resolved from UI'')]"
  by (simp add: Review_button_def handleReview_request_def nextStatus_def review_notes_def
      phone_mismatch_def two_discrepancies_def)

text \<open>
  C4, amended: manual resolution through \<open>DiscrepancyList\<close> (with \<open>handleResolve\<close> of
  \<open>DiscrepanciesPage.jsx\<close>) supports only open to resolved: an update is offered only for
  a discrepancy whose status is open and asks for resolved for that discrepancy. Manual
  review through \<open>Discrepancies.tsx\<close> is the two-step path open, under_review, resolved:
  for a discrepancy that is open or under review the Review button, unless that row is being
  updated, sends one request, for \<open>under_review\<close> from open and for resolved from
  \<open>under_review\<close>; when the API answers without a status or with the requested one, the rows
  with that id take the requested status, the ids stay and no other row changes its status;
  so two such reviews take an open discrepancy to resolved.
\<close>

theorem manual_update_transitions:
  "(\<forall>r \<in> set (DiscrepancyList_actions d).
      ad_status d = Some ''open'' \<and> req_id r = ad_id d \<and> req_status r = ''resolved'') \<and>
   (updatingId st \<noteq> Some (d_id disc) \<and> d_status disc = ''open'' \<longrightarrow>
      Review_button st disc = [(''under_review'', ''Marked as under review from UI'')]) \<and>
   (updatingId st \<noteq> Some (d_id disc) \<and> d_status disc = ''under_review'' \<longrightarrow>
      Review_button st disc = [(''resolved'', ''Marked as resolved from UI'')]) \<and>
   ((d_status disc = ''open'' \<or> d_status disc = ''under_review'') \<and>
    (answer = None \<or> answer = Some (nextStatus (d_status disc))) \<longrightarrow>
      map d_id (discrepancies (handleReview disc (Inr answer) st)) = map d_id (discrepancies st) \<and>
      map d_status (discrepancies (handleReview disc (Inr answer) st)) =
        map (\<lambda>x. if d_id x = d_id disc
                  then (if d_status disc = ''open'' then ''under_review'' else ''resolved'')
                  else d_status x)
          (discrepancies st)) \<and>
   (d_status disc = ''open'' \<longrightarrow>
      map d_status (discrepancies
        (handleReview (disc\<lparr>d_status := ''under_review''\<rparr>) (Inr None)
          (handleReview disc (Inr None) st))) =
        map (\<lambda>x. if d_id x = d_id disc then ''resolved'' else d_status x) (discrepancies st))"
proof -
  have a: "\<forall>r \<in> set (DiscrepancyList_actions d).
      ad_status d = Some ''open'' \<and> req_id r = ad_id d \<and> req_status r = ''resolved''"
    by (simp add: DiscrepancyList_actions_def handleResolve_def)
  have b: "Review_button st disc = [(''under_review'', ''Marked as under review from UI'')]"
    if "updatingId st \<noteq> Some (d_id disc)" "d_status disc = ''open''"
    using that
    by (simp add: Review_button_def handleReview_request_def nextStatus_def review_notes_def)
  have c: "Review_button st disc = [(''resolved'', ''Marked as resolved from UI'')]"
    if "updatingId st \<noteq> Some (d_id disc)" "d_status disc = ''under_review''"
    using that
    by (simp add: Review_button_def handleReview_request_def nextStatus_def review_notes_def)
  have n: "nextStatus (d_status disc) =
      (if d_status disc = ''open'' then ''under_review'' else ''resolved'')"
    by (simp add: nextStatus_def)
  have e: "map d_id (discrepancies (handleReview disc (Inr answer) st)) = map d_id (discrepancies st) \<and>
      map d_status (discrepancies (handleReview disc (Inr answer) st)) =
        map (\<lambda>x. if d_id x = d_id disc
                  then (if d_status disc = ''open'' then ''under_review'' else ''resolved'')
                  else d_status x)
          (discrepancies st)"
    if "answer = None \<or> answer = Some (nextStatus (d_status disc))"
    using handleReview_statuses [OF that, of st] by (simp only: n)
  have f: "map d_status (discrepancies
        (handleReview (disc\<lparr>d_status := ''under_review''\<rparr>) (Inr None)
          (handleReview disc (Inr None) st))) =
        map (\<lambda>x. if d_id x = d_id disc then ''resolved'' else d_status x) (discrepancies st)"
    if "d_status disc = ''open''"
  proof -
    let ?st1 = "handleReview disc (Inr None) st"
    let ?disc1 = "disc\<lparr>d_status := ''under_review''\<rparr>"
    have one: "discrepancies ?st1 =
        map (\<lambda>x. if d_id x = d_id disc then x\<lparr>d_status := ''under_review''\<rparr> else x)
          (discrepancies st)"
      using handleReview_rows [of None disc st] that by (simp add: nextStatus_def)
    have two: "map d_status (discrepancies (handleReview ?disc1 (Inr None) ?st1)) =
        map (\<lambda>x. if d_id x = d_id disc then ''resolved'' else d_status x) (discrepancies ?st1)"
      using handleReview_statuses(1) [of None ?disc1 ?st1] by (simp add: nextStatus_def)
    show ?thesis
      unfolding two one by (simp add: o_def)
  qed
  from a b c e f show ?thesis by blast
qed

theorem manual_update_transitions_witness:
  "handleResolve 12 \<in> set (DiscrepancyList_actions \<lparr>ad_id = 12, ad_status = Some ''open''\<rparr>) \<and>
   req_status (handleResolve 12) = ''resolved'' \<and>
   updatingId two_discrepancies \<noteq> Some (d_id phone_mismatch) \<and>
   d_status phone_mismatch = ''open'' \<and>
   Review_button two_discrepancies phone_mismatch =
     [(''under_review'', ''Marked as under review from UI'')] \<and>
   map d_status (discrepancies (handleReview phone_mismatch (Inr (Some ''under_review''))
     two_discrepancies)) = [''under_review'', ''resolved''] \<and>
   map d_status (discrepancies
     (handleReview (phone_mismatch\<lparr>d_status := ''under_review''\<rparr>) (Inr None)
       (handleReview phone_mismatch (Inr None) two_discrepancies))) = [''resolved'', ''resolved'']"
proof -
  let ?d = "\<lparr>ad_id = 12, ad_status = Some ''open''\<rparr>"
  have a: "handleResolve 12 \<in> set (DiscrepancyList_actions ?d)"
    by (simp add: DiscrepancyList_actions_def)
  have u: "updatingId two_discrepancies \<noteq> Some (d_id phone_mismatch)"
    by (simp add: two_discrepancies_def)
  have o: "d_status phone_mismatch = ''open''"
    by (simp add: phone_mismatch_def)
  have n: "Some ''under_review'' = Some (nextStatus (d_status phone_mismatch))"
    by (simp add: o nextStatus_def)
  note t = manual_update_transitions
    [of ?d two_discrepancies phone_mismatch "Some ''under_review''"]
  from t a have r: "req_status (handleResolve 12) = ''resolved''" by blast
  from t u o have b: "Review_button two_discrepancies phone_mismatch =
     [(''under_review'', ''Marked as under review from UI'')]" by blast
  from t o n have s1: "map d_status (discrepancies (handleReview phone_mismatch
      (Inr (Some ''under_review'')) two_discrepancies)) =
      map (\<lambda>x. if d_id x = d_id phone_mismatch
                then (if d_status phone_mismatch = ''open'' then ''under_review'' else ''resolved'')
                else d_status x) (discrepancies two_discrepancies)"
    by blast
  from t o have s2: "map d_status (discrepancies
     (handleReview (phone_mismatch\<lparr>d_status := ''under_review''\<rparr>) (Inr None)
       (handleReview phone_mismatch (Inr None) two_discrepancies))) =
     map (\<lambda>x. if d_id x = d_id phone_mismatch then ''resolved'' else d_status x)
       (discrepancies two_discrepancies)"
    by blast
  have e1: "map (\<lambda>x. if d_id x = d_id phone_mismatch
                then (if d_status phone_mismatch = ''open'' then ''under_review'' else ''resolved'')
                else d_status x) (discrepancies two_discrepancies) = [''under_review'', ''resolved'']"
    by (simp add: two_discrepancies_def phone_mismatch_def address_mismatch_def)
  have e2: "map (\<lambda>x. if d_id x = d_id phone_mismatch then ''resolved'' else d_status x)
       (discrepancies two_discrepancies) = [''resolved'', ''resolved'']"
    by (simp add: two_discrepancies_def phone_mismatch_def address_mismatch_def)
  from a r u o b s1 s2 e1 e2 show ?thesis by simp
qed


section \<open>The domain of discrepancy statuses\<close>

text \<open>
  C5, as claimed: no operation produces, stores or displays a discrepancy status other than
  open and resolved. A review of the open discrepancy 12, answered without a status, stores
  \<open>under_review\<close>.
\<close>

theorem handleReview_stores_under_review:
  "map d_status (discrepancies (handleReview phone_mismatch (Inr None) two_discrepancies)) =
     [''under_review'', ''resolved''] \<and>
   ''under_review'' \<notin> {''open'', ''resolved''}"
  by (simp add: handleReview_def two_discrepancies_def phone_mismatch_def address_mismatch_def
      nullish_def nextStatus_def normalizedStatus_def toLowerCase_def toLowerCase_char_def Let_def)

text \<open>
  C5, amended: the discrepancy statuses of \<open>Discrepancies.tsx\<close> are the three values open,
  under_review and resolved: its badge has a label for exactly these, every status
  \<open>handleReview\<close> asks for and every status \<open>handleResolve\<close> asks for is one of them, and
  \<open>handleReview\<close> keeps every stored status among them when the status the API answers with,
  if any, normalises to one of them.
\<close>

theorem discrepancy_status_three_values:
  "dom (map_of Discrepancy_StatusBadge_labels) = set Status_members \<and>
   nextStatus s \<in> set Status_members \<and>
   req_status (handleResolve i) \<in> set Status_members \<and>
   (list_all (\<lambda>d. d_status d \<in> set Status_members) (discrepancies st) \<and>
    (\<forall>r. outcome = Inr (Some r) \<longrightarrow> normalizedStatus r \<in> set Status_members)
    \<longrightarrow> list_all (\<lambda>d. d_status d \<in> set Status_members)
          (discrepancies (handleReview disc outcome st)))"
proof -
  have a: "dom (map_of Discrepancy_StatusBadge_labels) = set Status_members"
    by (auto simp: Discrepancy_StatusBadge_labels_def Status_members_def dom_def split: if_splits)
  have b: "req_status (handleResolve i) \<in> set Status_members"
    by (simp add: handleResolve_def Status_members_def)
  have c: "list_all (\<lambda>d. d_status d \<in> set Status_members)
          (discrepancies (handleReview disc outcome st))"
    if inv: "list_all (\<lambda>d. d_status d \<in> set Status_members) (discrepancies st)"
      and ret: "\<forall>r. outcome = Inr (Some r) \<longrightarrow> normalizedStatus r \<in> set Status_members"
  proof (cases outcome)
    case (Inl err)
    with inv show ?thesis by (simp add: handleReview_def)
  next
    case (Inr updated_status)
    have "normalizedStatus (nullish updated_status (nextStatus (d_status disc))) \<in> set Status_members"
    proof (cases updated_status)
      case None
      then show ?thesis
        by (simp add: nullish_def normalizedStatus_nextStatus nextStatus_member)
    next
      case (Some r)
      with ret Inr show ?thesis by (simp add: nullish_def)
    qed
    with inv have "list_all (\<lambda>d. d_status d \<in> set Status_members)
        (map (\<lambda>d. if d_id d = d_id disc
                then d\<lparr>d_status := normalizedStatus
                       (nullish updated_status (nextStatus (d_status disc)))\<rparr>
                else d) (discrepancies st))"
      by (intro list_all_map_step) simp_all
    with Inr show ?thesis
      by (simp add: handleReview_def Let_def)
  qed
  from a b c nextStatus_member show ?thesis by blast
qed

theorem discrepancy_status_three_values_witness:
  "list_all (\<lambda>d. d_status d \<in> set Status_members) (discrepancies two_discrepancies) \<and>
   normalizedStatus ''Under Review'' \<in> set Status_members \<and>
   list_all (\<lambda>d. d_status d \<in> set Status_members)
     (discrepancies (handleReview phone_mismatch (Inr (Some ''Under Review'')) two_discrepancies))"
proof -
  have a: "list_all (\<lambda>d. d_status d \<in> set Status_members) (discrepancies two_discrepancies)"
    by (simp add: two_discrepancies_def phone_mismatch_def address_mismatch_def Status_members_def)
  have b: "normalizedStatus ''Under Review'' \<in> set Status_members"
    by (simp add: normalizedStatus_def toLowerCase_def toLowerCase_char_def Status_members_def)
  from discrepancy_status_three_values
         [of _ _ two_discrepancies "Inr (Some ''Under Review'')" phone_mismatch] a b
  show ?thesis by simp
qed


section \<open>The summary cards\<close>








text \<open>The dashboard of \<open>Dashboard.tsx\<close> prints five of the seven properties itself; the
  totals of discrepancies and of high-risk providers are printed by \<open>SummaryCards\<close> only.\<close>

lemma Dashboard_StatCards_values:
  "map snd (Dashboard_StatCards (Some s)) =
     [Plain (nullish (s ''total_providers'') 0), Plain (nullish (s ''validated_providers'') 0),
      Plain (nullish (s ''pending_providers'') 0), Plain (nullish (s ''open_discrepancies'') 0),
      Percent_tenths (toFixed1 (nullish (s ''avg_confidence_score'') 0))]"
  by (simp add: Dashboard_StatCards_def)




section \<open>Idempotence of a forced validation run\<close>

lemma write_row_idem: "write_row out cs (write_row out cs r) = write_row out cs r"
  by (simp add: write_row_def)

lemma is_open_for_write_row [simp]: "is_open_for pid f (write_row out cs r) = is_open_for pid f r"
  by (simp add: write_row_def is_open_for_def)

lemma not_open_close_row [simp]: "\<not> is_open_for pid f (close_row now r)"
  by (simp add: close_row_def is_open_for_def)

lemma is_open_for_new_row [simp]:
  "is_open_for pid f (new_row i pid' f' now out cs) = (pid' = pid \<and> f' = f)"
  by (auto simp: new_row_def write_row_def is_open_for_def)

lemma is_open_for_close_row_other [simp]:
  "g \<noteq> f \<Longrightarrow> is_open_for pid g r \<Longrightarrow> \<not> is_open_for pid f (close_row now r)"
  by (simp add: close_row_def is_open_for_def)

lemma is_open_for_other: "g \<noteq> f \<Longrightarrow> is_open_for pid g r \<Longrightarrow> \<not> is_open_for pid f r"
  by (auto simp: is_open_for_def)

lemma write_new_row [simp]: "write_row out cs (new_row i pid f now out cs) = new_row i pid f now out cs"
  by (simp add: new_row_def write_row_idem)

lemma filter_map_untouched:
  "(\<And>x. x \<in> set xs \<Longrightarrow> h x = x \<or> (\<not> P x \<and> \<not> P (h x))) \<Longrightarrow>
   filter P (map h xs) = filter P xs"
proof (induction xs)
  case Nil
  then show ?case by simp
next
  case (Cons a xs)
  have "h a = a \<or> (\<not> P a \<and> \<not> P (h a))" using Cons.prems by simp
  moreover have "filter P (map h xs) = filter P xs" using Cons by simp
  ultimately show ?case by auto
qed

lemma settled_filter:
  "settled cfg pid f tbl =
     (if fo_discrepancy (detect f (collect cfg pid f))
      then filter (is_open_for pid f) tbl \<noteq> [] \<and>
           list_all (\<lambda>r. write_row (detect f (collect cfg pid f)) (collect cfg pid f) r = r)
             (filter (is_open_for pid f) tbl)
      else filter (is_open_for pid f) tbl = [])"
  by (auto simp: settled_def list_ex_iff list_all_iff filter_empty_conv)

lemma settled_fixed:
  assumes "settled cfg pid f tbl"
  shows "reconcile_field cfg pid now f tbl = tbl"
proof (cases "fo_discrepancy (detect f (collect cfg pid f))")
  case True
  with assms have ex: "list_ex (is_open_for pid f) tbl"
    and same: "\<And>r. r \<in> set tbl \<Longrightarrow> is_open_for pid f r \<Longrightarrow>
        write_row (detect f (collect cfg pid f)) (collect cfg pid f) r = r"
    by (auto simp: settled_def list_all_iff)
  from same have "map (\<lambda>r. if is_open_for pid f r
        then write_row (detect f (collect cfg pid f)) (collect cfg pid f) r else r) tbl = tbl"
    by (intro map_idI) simp
  with True ex show ?thesis
    by (simp add: reconcile_field_def upsert_def)
next
  case False
  with assms have none: "\<And>r. r \<in> set tbl \<Longrightarrow> \<not> is_open_for pid f r"
    by (auto simp: settled_def list_ex_iff)
  then have "map (\<lambda>r. if is_open_for pid f r then close_row now r else r) tbl = tbl"
    by (intro map_idI) simp
  with False show ?thesis
    by (simp add: reconcile_field_def upsert_def)
qed

lemma settled_after: "settled cfg pid f (reconcile_field cfg pid now f tbl)"
proof (cases "fo_discrepancy (detect f (collect cfg pid f))")
  case disc: True
  let ?w = "write_row (detect f (collect cfg pid f)) (collect cfg pid f)"
  show ?thesis
  proof (cases "list_ex (is_open_for pid f) tbl")
    case True
    then obtain r where r: "r \<in> set tbl" "is_open_for pid f r"
      by (auto simp: list_ex_iff)
    let ?t = "map (\<lambda>r. if is_open_for pid f r then ?w r else r) tbl"
    from r have "?w r \<in> set ?t" by force
    then have ex: "list_ex (is_open_for pid f) ?t"
      using r(2) unfolding list_ex_iff by (metis is_open_for_write_row)
    have "list_all (\<lambda>r. is_open_for pid f r \<longrightarrow> ?w r = r) ?t"
      by (auto simp: list_all_iff write_row_idem)
    with ex disc True show ?thesis
      by (simp add: settled_def reconcile_field_def upsert_def)
  next
    case False
    then have "\<And>r. r \<in> set tbl \<Longrightarrow> \<not> is_open_for pid f r"
      by (auto simp: list_ex_iff)
    then have "list_all (\<lambda>r. is_open_for pid f r \<longrightarrow> ?w r = r)
        (tbl @ [new_row (fresh_id tbl) pid f now (detect f (collect cfg pid f)) (collect cfg pid f)])"
      by (auto simp: list_all_iff)
    with disc False show ?thesis
      by (simp add: settled_def reconcile_field_def upsert_def)
  qed
next
  case False
  have "\<not> list_ex (is_open_for pid f) (map (\<lambda>r. if is_open_for pid f r then close_row now r else r) tbl)"
    by (auto simp: list_ex_iff)
  with False show ?thesis
    by (simp add: settled_def reconcile_field_def upsert_def)
qed

lemma open_rows_other_field:
  assumes "g \<noteq> f"
  shows "filter (is_open_for pid f) (reconcile_field cfg pid now g tbl) =
         filter (is_open_for pid f) tbl"
proof -
  have a: "filter (is_open_for pid f) (map (\<lambda>r. if is_open_for pid g r then h r else r) tbl) =
        filter (is_open_for pid f) tbl"
    if "\<And>r. is_open_for pid g r \<Longrightarrow> \<not> is_open_for pid f (h r)" for h
    using that assms by (intro filter_map_untouched) (auto dest: is_open_for_other)
  have w: "filter (is_open_for pid f)
      (map (\<lambda>r. if is_open_for pid g r then write_row out cs r else r) tbl) =
        filter (is_open_for pid f) tbl" for out cs
    using assms by (intro a) (auto dest: is_open_for_other)
  have c: "filter (is_open_for pid f)
      (map (\<lambda>r. if is_open_for pid g r then close_row now r else r) tbl) =
        filter (is_open_for pid f) tbl"
    using assms by (intro a) auto
  show ?thesis
    using assms w c by (simp add: reconcile_field_def upsert_def)
qed

lemma settled_preserved:
  assumes "settled cfg pid f tbl"
  shows "settled cfg pid f (reconcile_field cfg pid now g tbl)"
proof (cases "g = f")
  case True
  then show ?thesis by (simp add: settled_after)
next
  case False
  with assms show ?thesis by (simp add: settled_filter open_rows_other_field)
qed

lemma settled_fold:
  "f \<in> set fs \<or> settled cfg pid f tbl \<Longrightarrow>
   settled cfg pid f (fold (reconcile_field cfg pid now) fs tbl)"
proof (induction fs arbitrary: tbl)
  case Nil
  then show ?case by simp
next
  case (Cons g fs)
  show ?case
  proof (cases "g = f")
    case True
    have "settled cfg pid f (reconcile_field cfg pid now g tbl)"
      using True by (simp add: settled_after)
    then show ?thesis using Cons.IH by simp
  next
    case False
    with Cons.prems have "f \<in> set fs \<or> settled cfg pid f (reconcile_field cfg pid now g tbl)"
      by (auto intro: settled_preserved)
    then show ?thesis using Cons.IH by simp
  qed
qed

lemma fold_settled_fixed:
  "(\<And>f. f \<in> set fs \<Longrightarrow> settled cfg pid f tbl) \<Longrightarrow>
   fold (reconcile_field cfg pid now) fs tbl = tbl"
  by (induction fs) (simp_all add: settled_fixed)

lemma reconcile_twice:
  "fold (reconcile_field cfg pid now') (registered_fields cfg)
     (fold (reconcile_field cfg pid now) (registered_fields cfg) tbl) =
   fold (reconcile_field cfg pid now) (registered_fields cfg) tbl"
  by (intro fold_settled_fixed settled_fold) simp

lemma pr_id_finalize [simp]: "pr_id (finalize cfg pid now q) = pr_id q"
  by (simp add: finalize_def)

lemma finalize_twice:
  "pr_confidence_score (finalize cfg pid now' (finalize cfg pid now q)) =
     pr_confidence_score (finalize cfg pid now q)"
  "pr_validation_status (finalize cfg pid now' (finalize cfg pid now q)) =
     pr_validation_status (finalize cfg pid now q)"
  by (simp_all add: finalize_def)

lemma validateOne_forced:
  "validateOne cfg pid True now st =
     (if list_ex (\<lambda>p. pr_id p = pid) (provider_table st)
      then Inr \<lparr>provider_table = map (finalize cfg pid now) (provider_table st),
                discrepancy_table =
                  fold (reconcile_field cfg pid now) (registered_fields cfg) (discrepancy_table st)\<rparr>
      else Inl ValidationRunError)"
proof (cases "filter (\<lambda>p. pr_id p = pid) (provider_table st)")
  case Nil
  then have "\<not> list_ex (\<lambda>p. pr_id p = pid) (provider_table st)"
    by (simp add: list_ex_iff filter_empty_conv)
  with Nil show ?thesis by (simp add: validateOne_def)
next
  case (Cons p ps)
  then have "p \<in> set (filter (\<lambda>p. pr_id p = pid) (provider_table st))" by simp
  then have "list_ex (\<lambda>p. pr_id p = pid) (provider_table st)"
    by (auto simp: list_ex_iff)
  with Cons show ?thesis by (simp add: validateOne_def)
qed

text \<open>
  C2. Two consecutive runs \<open>validateOne(id, forceRevalidate = true)\<close> on unchanged source
  data: when the first run succeeds, so does the second, and it leaves the discrepancy table
  exactly as the first run left it (the same rows with the same ids and the same values, so
  no row is added) and every provider with the confidence score and the status of the first
  run. The two runs may happen at different times.
\<close>

theorem validateOne_idempotent:
  assumes "validateOne cfg pid True now st = Inr st1"
  shows "\<exists>st2. validateOne cfg pid True now' st1 = Inr st2 \<and>
           discrepancy_table st2 = discrepancy_table st1 \<and>
           map pr_confidence_score (provider_table st2) = map pr_confidence_score (provider_table st1) \<and>
           map pr_validation_status (provider_table st2) = map pr_validation_status (provider_table st1)"
proof -
  from assms have ex: "list_ex (\<lambda>p. pr_id p = pid) (provider_table st)"
    and st1: "st1 = \<lparr>provider_table = map (finalize cfg pid now) (provider_table st),
                discrepancy_table =
                  fold (reconcile_field cfg pid now) (registered_fields cfg) (discrepancy_table st)\<rparr>"
    by (auto simp: validateOne_forced split: if_splits)
  from ex have ex1: "list_ex (\<lambda>p. pr_id p = pid) (provider_table st1)"
    by (simp add: st1 list_ex_iff)
  let ?st2 = "\<lparr>provider_table = map (finalize cfg pid now') (provider_table st1),
                discrepancy_table =
                  fold (reconcile_field cfg pid now') (registered_fields cfg) (discrepancy_table st1)\<rparr>"
  have run: "validateOne cfg pid True now' st1 = Inr ?st2"
    using ex1 by (simp add: validateOne_forced)
  have d: "discrepancy_table ?st2 = discrepancy_table st1"
    by (simp add: st1 reconcile_twice)
  have c: "map pr_confidence_score (provider_table ?st2) = map pr_confidence_score (provider_table st1)"
    by (simp add: st1 finalize_twice)
  have v: "map pr_validation_status (provider_table ?st2) = map pr_validation_status (provider_table st1)"
    by (simp add: st1 finalize_twice)
  from run d c v show ?thesis by blast
qed

lemma scenario_B_collect:
  "collect scenario_B_config 7 ''address'' =
     [\<lparr>fc_source = Registry, raw_value = Some ''456 Oak Ave'', normalized_value = Some ''456 Oak Ave''\<rparr>,
      \<lparr>fc_source = Enrichment, raw_value = None, normalized_value = None\<rparr>,
      \<lparr>fc_source = Import, raw_value = Some ''123 Main St'', normalized_value = Some ''123 Main St''\<rparr>]"
  by (simp add: collect_def scenario_B_config_def)

lemma hundred_div_two: "(100::nat) div Suc (Suc 0) = 50"
  by (simp flip: numeral_2_eq_2)

lemma scenario_B_detect:
  "detect ''address''
     [\<lparr>fc_source = Registry, raw_value = Some ''456 Oak Ave'', normalized_value = Some ''456 Oak Ave''\<rparr>,
      \<lparr>fc_source = Enrichment, raw_value = None, normalized_value = None\<rparr>,
      \<lparr>fc_source = Import, raw_value = Some ''123 Main St'', normalized_value = Some ''123 Main St''\<rparr>] =
     \<lparr>fo_confidence = 50, fo_risk = High, fo_discrepancy = True, fo_final = Some ''456 Oak Ave''\<rparr>"
  by (simp add: detect_def present_def valid_def select_final_def
      values_differ_def risk_of_def Let_def hundred_div_two)

lemma scenario_B_first_run:
  "validateOne scenario_B_config 7 True 100 scenario_B_start = Inr scenario_B_after"
proof -
  have f: "registered_fields scenario_B_config = [''address'']"
    and w: "field_weight scenario_B_config ''address'' = 2"
    by (simp_all add: scenario_B_config_def)
  have o: "field_outcomes scenario_B_config 7 =
     [(''address'', \<lparr>fo_confidence = 50, fo_risk = High, fo_discrepancy = True,
        fo_final = Some ''456 Oak Ave''\<rparr>)]"
    by (simp add: field_outcomes_def f scenario_B_collect scenario_B_detect)
  have s: "score scenario_B_config (field_outcomes scenario_B_config 7) = 50"
    by (simp add: o score_def w)
  have r: "reconcile_field scenario_B_config 7 100 ''address'' [] = discrepancy_table scenario_B_after"
    by (simp add: reconcile_field_def scenario_B_detect upsert_def new_row_def write_row_def
        fresh_id_def raw_of_def scenario_B_collect scenario_B_after_def)
  show ?thesis
    by (simp add: validateOne_forced scenario_B_start_def finalize_def s f r)
       (simp add: o status_of_def scenario_B_after_def)
qed

theorem validateOne_idempotent_witness:
  "validateOne scenario_B_config 7 True 100 scenario_B_start = Inr scenario_B_after \<and>
   (\<exists>st2. validateOne scenario_B_config 7 True 200 scenario_B_after = Inr st2 \<and>
      discrepancy_table st2 = discrepancy_table scenario_B_after \<and>
      map pr_confidence_score (provider_table st2) = [50])"
proof -
  from validateOne_idempotent [OF scenario_B_first_run, of 200]
  obtain st2 where "validateOne scenario_B_config 7 True 200 scenario_B_after = Inr st2"
    and "discrepancy_table st2 = discrepancy_table scenario_B_after"
    and "map pr_confidence_score (provider_table st2) =
         map pr_confidence_score (provider_table scenario_B_after)"
    by blast
  then show ?thesis
    using scenario_B_first_run by (auto simp: scenario_B_after_def)
qed

end
